theory Spec2Isabelle
  imports Complex_Main "HOL-Library.Word"
begin

unbundle bit_operations_syntax

chapter \<open>ai-cz: the encrypted token store and the commit suggestion pipeline\<close>

text \<open>
  A shallow embedding of \<^verbatim>\<open>src/index.ts\<close>. A JavaScript string is a sequence of
  UTF-16 code units, a \<^verbatim>\<open>Buffer\<close> is a sequence of bytes, a thrown exception is the
  left injection of a sum, and everything the program reads from outside (the file
  system, the random source, the terminal, git, the remote service) is an explicit
  argument.
\<close>

section \<open>Strings and buffers\<close>

type_synonym byte = "8 word"
type_synonym code_unit = "16 word"
type_synonym jsstring = "code_unit list"

text \<open>An ASCII literal of the source, as code units.\<close>

definition js :: "string \<Rightarrow> jsstring" where
  "js s = map of_char s"

section \<open>The commit type catalog\<close>

record CommitType =
  type :: jsstring
  description :: jsstring
  emoji :: jsstring

text \<open>
  \<^verbatim>\<open>COMMIT_TYPES\<close> (lines 44 to 85). The emoji are written as the UTF-16 code units of
  the source text: U+2728 is the single unit \<open>0x2728\<close>, U+1F4DA the surrogate pair
  \<open>0xD83D 0xDCDA\<close>; the emoji of \<^verbatim>\<open>refactor\<close> and \<^verbatim>\<open>build\<close> end in the variation
  selector U+FE0F.
\<close>

definition COMMIT_TYPES :: "CommitType list" where
  "COMMIT_TYPES =
    [\<lparr>type = js ''feat'', description = js ''A new feature'', emoji = [0x2728]\<rparr>,
     \<lparr>type = js ''fix'', description = js ''A bug fix'', emoji = [0xD83D, 0xDC1B]\<rparr>,
     \<lparr>type = js ''docs'', description = js ''Documentation only changes'',
      emoji = [0xD83D, 0xDCDA]\<rparr>,
     \<lparr>type = js ''style'',
      description = js ''Changes that do not affect the meaning of the code'',
      emoji = [0xD83D, 0xDC8E]\<rparr>,
     \<lparr>type = js ''refactor'',
      description = js ''A code change that neither fixes a bug nor adds a feature'',
      emoji = [0x267B, 0xFE0F]\<rparr>,
     \<lparr>type = js ''perf'', description = js ''A code change that improves performance'',
      emoji = [0x26A1]\<rparr>,
     \<lparr>type = js ''test'',
      description = js ''Adding missing tests or correcting existing tests'',
      emoji = [0xD83E, 0xDDEA]\<rparr>,
     \<lparr>type = js ''build'',
      description = js ''Changes that affect the build system or external dependencies'',
      emoji = [0xD83C, 0xDFD7, 0xFE0F]\<rparr>,
     \<lparr>type = js ''ci'', description = js ''Changes to CI configuration files and scripts'',
      emoji = [0xD83D, 0xDC77]\<rparr>,
     \<lparr>type = js ''chore'',
      description = js ''Other changes that don't modify src or test files'',
      emoji = [0xD83D, 0xDD27]\<rparr>,
     \<lparr>type = js ''revert'', description = js ''Reverts a previous commit'',
      emoji = [0x23EA]\<rparr>]"

section \<open>Formatting the commit message\<close>

text \<open>
  \<^verbatim>\<open>formatCommitMessage\<close> (lines 509 to 515). \<^verbatim>\<open>Array.prototype.find\<close> returns the
  first entry whose type is the given one, or \<^verbatim>\<open>undefined\<close>; \<^verbatim>\<open>commitType?.emoji || ""\<close>
  is the entry's emoji unless there is no entry or its emoji is the empty string;
  \<^verbatim>\<open>scope ? `(${scope})` : ""\<close> tests the scope for being non-empty.
\<close>

definition formatCommitMessage :: "jsstring \<Rightarrow> jsstring \<Rightarrow> jsstring \<Rightarrow> jsstring" where
  "formatCommitMessage ty scope message =
    (let commitType = find (\<lambda>t. type t = ty) COMMIT_TYPES;
         emoji = (case commitType of
                    None \<Rightarrow> js ''''
                  | Some t \<Rightarrow> if emoji t \<noteq> [] then emoji t else js '''');
         scopeStr = (if scope \<noteq> [] then js ''('' @ scope @ js '')'' else js '''')
     in ty @ scopeStr @ js '': '' @ emoji @ js '' '' @ message)"

text \<open>
  The lookup as the specification words it: the emoji the catalog gives for a type
  identifier, and the empty string for an identifier the catalog does not have.
\<close>

definition catalog_emoji :: "jsstring \<Rightarrow> jsstring" where
  "catalog_emoji ty =
    (case map_of (map (\<lambda>t. (type t, emoji t)) COMMIT_TYPES) ty of
       None \<Rightarrow> []
     | Some e \<Rightarrow> e)"

definition catalog_types :: "jsstring list" where
  "catalog_types = map type COMMIT_TYPES"

section \<open>Properties of the formatting function\<close>

lemma find_catalog:
  "(case find (\<lambda>t. type t = ty) COMMIT_TYPES of
      None \<Rightarrow> js ''''
    | Some t \<Rightarrow> if emoji t \<noteq> [] then emoji t else js '''') = catalog_emoji ty"
  by (simp add: COMMIT_TYPES_def catalog_emoji_def js_def)

lemma catalog_emoji_unknown:
  "ty \<notin> set catalog_types \<Longrightarrow> catalog_emoji ty = []"
  by (simp add: COMMIT_TYPES_def catalog_emoji_def catalog_types_def js_def)

lemma formatCommitMessage_shape:
  "formatCommitMessage ty scope message =
    (if scope = [] then ty @ js '': '' @ catalog_emoji ty @ js '' '' @ message
     else ty @ js ''('' @ scope @ js ''): '' @ catalog_emoji ty @ js '' '' @ message)"
  unfolding formatCommitMessage_def Let_def find_catalog
  by (simp add: js_def)

text \<open>
  Claim C5. The formatting function is a total function of its three arguments. Its
  result is the type, the scope in brackets when the scope is not empty, a colon and a
  blank, the emoji of the catalog for the type, a blank, and the message; the emoji is
  the empty string for a type that is not in the catalog. On the two examples of the
  specification it gives the strings stated there (U+2728 and U+1F4DA as code units).
\<close>

theorem formatCommitMessage_correct:
  "formatCommitMessage ty scope message =
     (if scope = [] then ty @ js '': '' @ catalog_emoji ty @ js '' '' @ message
      else ty @ js ''('' @ scope @ js ''): '' @ catalog_emoji ty @ js '' '' @ message)
   \<and> (ty \<notin> set catalog_types \<longrightarrow> catalog_emoji ty = [])
   \<and> formatCommitMessage (js ''feat'') (js ''auth'') (js ''implement OAuth2 login flow'')
       = js ''feat(auth): '' @ [0x2728] @ js '' implement OAuth2 login flow''
   \<and> formatCommitMessage (js ''docs'') (js '''') (js ''add installation instructions'')
       = js ''docs: '' @ [0xD83D, 0xDCDA] @ js '' add installation instructions''"
proof (intro conjI)
  show "formatCommitMessage ty scope message =
     (if scope = [] then ty @ js '': '' @ catalog_emoji ty @ js '' '' @ message
      else ty @ js ''('' @ scope @ js ''): '' @ catalog_emoji ty @ js '' '' @ message)"
    by (rule formatCommitMessage_shape)
  show "ty \<notin> set catalog_types \<longrightarrow> catalog_emoji ty = []"
    by (simp add: catalog_emoji_unknown)
  show "formatCommitMessage (js ''feat'') (js ''auth'') (js ''implement OAuth2 login flow'')
       = js ''feat(auth): '' @ [0x2728] @ js '' implement OAuth2 login flow''"
    by (simp add: formatCommitMessage_shape catalog_emoji_def COMMIT_TYPES_def js_def)
  show "formatCommitMessage (js ''docs'') (js '''') (js ''add installation instructions'')
       = js ''docs: '' @ [0xD83D, 0xDCDA] @ js '' add installation instructions''"
    by (simp add: formatCommitMessage_shape catalog_emoji_def COMMIT_TYPES_def js_def)
qed

text \<open>
  The theorem at an identifier outside the catalog: the emoji is empty and the string
  is still well formed.
\<close>

theorem formatCommitMessage_correct_witness:
  "js ''wip'' \<notin> set catalog_types
   \<and> catalog_emoji (js ''wip'') = []
   \<and> formatCommitMessage (js ''wip'') (js ''core'') (js ''try it'') = js ''wip(core):  try it''"
proof -
  have out: "js ''wip'' \<notin> set catalog_types"
    by (simp add: catalog_types_def COMMIT_TYPES_def js_def)
  from formatCommitMessage_correct [of "js ''wip''" "js ''core''" "js ''try it''"] out
  have e: "catalog_emoji (js ''wip'') = []"
    and f: "formatCommitMessage (js ''wip'') (js ''core'') (js ''try it'') =
      (if js ''core'' = [] then js ''wip'' @ js '': '' @ catalog_emoji (js ''wip'') @ js '' '' @ js ''try it''
       else js ''wip'' @ js ''('' @ js ''core'' @ js ''): '' @ catalog_emoji (js ''wip'') @ js '' '' @ js ''try it'')"
    by blast+
  show ?thesis
    using out e f by (simp add: js_def)
qed

end
